theory Spec2Isabelle
  imports Complex_Main "HOL-Library.AList" "HOL-Library.Sublist" "HOL-Library.Log_Nat"
begin

section \<open>JavaScript values\<close>

text \<open>
  A value of TypeScript type \<open>string | null | undefined\<close>. The strict comparison
  \<open>!==\<close> of two such values is inequality of this datatype: \<open>null\<close> and
  \<open>undefined\<close> are different values, strings compare by contents.
\<close>

datatype jsstr = Undefined | Null | Str string

text \<open>
  Truthiness, as tested by \<open>!v\<close> and \<open>if (v)\<close>: \<open>null\<close>, \<open>undefined\<close> and the
  empty string are falsy, every other string is truthy.
\<close>

fun truthy :: "jsstr \<Rightarrow> bool" where
  "truthy (Str s) = (s \<noteq> [])"
| "truthy Undefined = False"
| "truthy Null = False"

section \<open>Sockets and node selection (Manager.ts)\<close>

text \<open>
  Modelled from the spec: the \<open>Status\<close> enum of \<open>Socket.ts\<close> is not among the sources.
  The members are the connection states the spec and the library name; \<open>status_code\<close> is
  their numeric value, where \<open>CONNECTED\<close> is the member with value 0 that
  \<open>Manager.ideal\<close> tests for with \<open>s.status==0\<close>.
\<close>

datatype status = CONNECTED | CONNECTING | IDLE | DISCONNECTED | RECONNECTING

fun status_code :: "status \<Rightarrow> nat" where
  "status_code CONNECTED = 0"
| "status_code CONNECTING = 1"
| "status_code IDLE = 2"
| "status_code DISCONNECTED = 3"
| "status_code RECONNECTING = 4"

text \<open>
  The part of a \<open>Socket\<close> that \<open>Manager.ts\<close> reads: its id, its status and its
  penalties (an integer health score, lower is better).
\<close>

record socket =
  socket_id :: string
  status :: status
  penalties :: int

text \<open>
  \<open>Manager.sockets\<close> is a \<open>Map<string, Socket>\<close>. A JavaScript \<open>Map\<close> iterates in
  insertion order, so it is an association list: \<open>map_of\<close> is \<open>get\<close>,
  \<open>AList.update\<close> is \<open>set\<close> (in place for an existing key, appended otherwise) and
  \<open>AList.delete\<close> is \<open>delete\<close>.
\<close>

type_synonym sockets = "(string \<times> socket) list"

text \<open>
  \<open>get ideal(): Socket[]\<close>: the values of the map, filtered by \<open>s.status==0\<close>, sorted
  with the comparator \<open>a.penalties - b.penalties\<close>. \<open>Array.prototype.sort\<close> is stable,
  and so is \<open>sort_key\<close> (insertion sort).
\<close>

definition ideal :: "sockets \<Rightarrow> socket list" where
  "ideal socks = sort_key penalties (filter (\<lambda>s. status_code (status s) = 0) (map snd socks))"

text \<open>\<open>this.ideal[0]\<close>: the first element, \<open>undefined\<close> (here \<open>None\<close>) on an empty array.\<close>

definition ideal_0 :: "sockets \<Rightarrow> socket option" where
  "ideal_0 socks = (case ideal socks of [] \<Rightarrow> None | s # _ \<Rightarrow> Some s)"





section \<open>Filters (Filters.ts)\<close>

text \<open>
  A property value of a filter object. The declared type is \<open>number | undefined\<close>;
  \<open>null\<close> is kept as a value because \<open>isDistortionEnabled\<close> compares with it.
  Numbers are reals: the predicates only compare them with the constants 0 and 1.
  A property itself is a \<open>jsnum option\<close>, \<open>None\<close> when the object has no such own
  property.
\<close>

datatype jsnum = Num_undefined | Num_null | Num real

text \<open>Reading \<open>obj.prop\<close>: an absent property reads as \<open>undefined\<close>.\<close>

fun read_num :: "jsnum option \<Rightarrow> jsnum" where
  "read_num None = Num_undefined"
| "read_num (Some v) = v"

text \<open>\<open>Object.values\<close>: the values of the own properties that are present.\<close>

fun own_values :: "jsnum option list \<Rightarrow> jsnum list" where
  "own_values [] = []"
| "own_values (None # ps) = own_values ps"
| "own_values (Some v # ps) = v # own_values ps"

record equalizer_band =
  band :: real
  gain :: real

record timescale_filter =
  pitch :: "jsnum option"
  rate :: "jsnum option"
  speed :: "jsnum option"

record tremolo_filter =
  depth :: "jsnum option"
  frequency :: "jsnum option"

record karaoke_filter =
  level :: "jsnum option"
  monoLevel :: "jsnum option"
  filterBand :: "jsnum option"
  filterWidth :: "jsnum option"

record rotation_filter =
  rotationHz :: "jsnum option"

record distortion_filter =
  sinOffset :: "jsnum option"
  sinScale :: "jsnum option"
  cosOffset :: "jsnum option"
  cosScale :: "jsnum option"
  tanOffset :: "jsnum option"
  tanScale :: "jsnum option"
  offset :: "jsnum option"
  scale :: "jsnum option"

definition timescale_values :: "timescale_filter \<Rightarrow> jsnum list" where
  "timescale_values t = own_values [pitch t, rate t, speed t]"

definition distortion_values :: "distortion_filter \<Rightarrow> jsnum list" where
  "distortion_values d =
     own_values [sinOffset d, sinScale d, cosOffset d, cosScale d,
                 tanOffset d, tanScale d, offset d, scale d]"

text \<open>
  The fields of a \<open>Filters\<close> instance. A filter that is \<open>null\<close> or \<open>undefined\<close> is
  \<open>None\<close>; \<open>!!this.tremolo\<close> is then \<open>tremolo f \<noteq> None\<close>, an object being truthy.
\<close>

record filters =
  timescale :: "timescale_filter option"
  karaoke :: "karaoke_filter option"
  equalizer :: "equalizer_band list"
  volume :: real
  tremolo :: "tremolo_filter option"
  rotation :: "rotation_filter option"
  distortion :: "distortion_filter option"

text \<open>The constructor of \<open>Filters\<close>.\<close>

definition new_filters :: filters where
  "new_filters = \<lparr>timescale = None, karaoke = None, equalizer = [], volume = 1,
     tremolo = None, rotation = None, distortion = None\<rparr>"

definition isEqualizerEnabled :: "filters \<Rightarrow> bool" where
  "isEqualizerEnabled f = list_ex (\<lambda>b. gain b \<noteq> 0) (equalizer f)"

definition isTremoloEnabled :: "filters \<Rightarrow> bool" where
  "isTremoloEnabled f =
     (case tremolo f of None \<Rightarrow> False | Some t \<Rightarrow> read_num (depth t) \<noteq> Num 0)"

definition isKaraokeEnabled :: "filters \<Rightarrow> bool" where
  "isKaraokeEnabled f = (case karaoke f of None \<Rightarrow> False | Some k \<Rightarrow> True)"

definition isTimescaleEnabled :: "filters \<Rightarrow> bool" where
  "isTimescaleEnabled f =
     (case timescale f of None \<Rightarrow> False
      | Some t \<Rightarrow> list_ex (\<lambda>v. v \<noteq> Num 1) (timescale_values t))"

definition isDistortionEnabled :: "filters \<Rightarrow> bool" where
  "isDistortionEnabled f =
     (case distortion f of None \<Rightarrow> False
      | Some d \<Rightarrow> list_ex (\<lambda>v. v \<noteq> Num_null) (distortion_values d))"

definition isRotationEnabled :: "filters \<Rightarrow> bool" where
  "isRotationEnabled f =
     (case rotation f of None \<Rightarrow> False | Some r \<Rightarrow> read_num (rotationHz r) \<noteq> Num 0)"

text \<open>
  The payload object (a \<open>FilterMap\<close>): its keys with their values, in the order in which
  \<open>get payload()\<close> sets them. Every key is set at most once.
\<close>

datatype filter_value =
    Volume_value real
  | Equalizer_value "equalizer_band list"
  | Timescale_value "timescale_filter option"
  | Karaoke_value "karaoke_filter option"
  | Tremolo_value "tremolo_filter option"
  | Rotation_value "rotation_filter option"
  | Distortion_value "distortion_filter option"

type_synonym filter_map = "(string \<times> filter_value) list"

definition payload :: "filters \<Rightarrow> filter_map" where
  "payload f =
     [(''volume'', Volume_value (volume f)), (''equalizer'', Equalizer_value (equalizer f))]
     @ (if isTimescaleEnabled f then [(''timescale'', Timescale_value (timescale f))] else [])
     @ (if isKaraokeEnabled f then [(''karaoke'', Karaoke_value (karaoke f))] else [])
     @ (if isTremoloEnabled f then [(''tremolo'', Tremolo_value (tremolo f))] else [])
     @ (if isRotationEnabled f then [(''rotation'', Rotation_value (rotation f))] else [])
     @ (if isDistortionEnabled f then [(''distortion'', Distortion_value (distortion f))] else [])"

text \<open>The keys of a payload object.\<close>

definition keys :: "filter_map \<Rightarrow> string set" where
  "keys fm = fst ` set fm"

section \<open>Players, as Manager.ts uses them\<close>

text \<open>\<open>DiscordVoiceServer\<close> and \<open>DiscordVoiceState\<close> (Manager.ts).\<close>

record voice_server =
  token :: string
  server_guild_id :: string
  endpoint :: string

record voice_state =
  channel_id :: jsstr
  guild_id :: string
  user_id :: string
  session_id :: string

datatype voice_update = Server_update voice_server | State_update voice_state

text \<open>
  The fields of a \<open>Player\<close> that \<open>Manager.ts\<close> reads and writes. \<open>Player.ts\<close> is not
  among the sources. \<open>socket\<close> is the id of the \<open>Socket\<close> the player holds
  (\<open>p.socket.id\<close>); \<open>sessionId\<close> and \<open>server\<close> are \<open>_sessionId\<close> and \<open>_server\<close>, the
  two halves of the voice handshake; \<open>pid\<close> is the identity of the object, given by
  \<open>new\<close>.
\<close>

record player =
  pid :: nat
  guild :: string
  socket :: string
  channel :: jsstr
  position :: int
  track :: jsstr
  sessionId :: jsstr
  server :: "voice_server option"
  filters :: filters

text \<open>
  The calls that \<open>Manager.ts\<close> and \<open>Filters.ts\<close> make on a \<open>Player\<close>, recorded in the
  order in which they are made. The third argument of \<open>Send\<close> is \<open>prioritize\<close>,
  \<open>None\<close> when the caller passes two arguments only. The bodies of these methods are
  in \<open>Player.ts\<close>, which is not among the sources: a call is recorded and taken to
  return.
\<close>

datatype data =
    Voice_update_data jsstr "voice_server option"
  | Filters_data filter_map

datatype call =
    Move string
  | Send string data "bool option"
  | Play jsstr int
  | Emit string jsstr
  | Destroy bool

text \<open>
  \<open>Filters.apply(prioritize = false)\<close>: \<open>this.player.send("filters", this.payload,
  prioritize)\<close>. The argument is \<open>None\<close> when the caller omits it, and the parameter
  then takes its default.
\<close>

definition apply_filters :: "bool option \<Rightarrow> filters \<Rightarrow> call" where
  "apply_filters arg f =
     (let prioritize = (case arg of None \<Rightarrow> False | Some b \<Rightarrow> b)
      in Send ''filters'' (Filters_data (payload f)) (Some prioritize))"

text \<open>
  Modelled from the spec: the constructor of \<open>Player\<close> is not among the sources. A new
  Player is bound to the given connection, has no channel, no track, neither handshake
  half, and filters as the constructor of \<open>Filters\<close> makes them.
\<close>

definition new_player :: "nat \<Rightarrow> socket \<Rightarrow> string \<Rightarrow> player" where
  "new_player n s gid = \<lparr>pid = n, guild = gid, socket = socket_id s, channel = Undefined,
     position = 0, track = Undefined, sessionId = Undefined, server = None,
     filters = new_filters\<rparr>"

text \<open>
  Modelled from the spec: \<open>Player.move\<close> is not among the sources. Relocation unbinds the
  Player from its old connection and rebinds it to the new one.
\<close>

definition move :: "socket \<Rightarrow> player \<Rightarrow> player" where
  "move s p = p\<lparr>socket := socket_id s\<rparr>"

text \<open>
  Modelled from the spec: \<open>Player.handleVoiceUpdate\<close> is not among the sources. A voice
  server update is stored as the server half, a voice state update stores the session
  id; the combined voice update is sent only once both halves are present.
\<close>

definition present :: "jsstr \<Rightarrow> bool" where
  "present v = (v \<noteq> Undefined \<and> v \<noteq> Null)"

definition handleVoiceUpdate :: "voice_update \<Rightarrow> player \<Rightarrow> player \<times> call list" where
  "handleVoiceUpdate u p =
     (let p' = (case u of
                  Server_update s \<Rightarrow> p\<lparr>server := Some s\<rparr>
                | State_update s \<Rightarrow> p\<lparr>sessionId := Str (session_id s)\<rparr>)
      in (p', case server p' of
                None \<Rightarrow> []
              | Some s \<Rightarrow> if present (sessionId p')
                  then [Send ''voiceUpdate'' (Voice_update_data (sessionId p') (Some s)) None]
                  else []))"

section \<open>The manager (Manager.ts)\<close>

datatype error = TypeError string | Error string

text \<open>
  A function given as \<open>send\<close>: the one of \<open>defaults\<close>, whose body throws, or one of the
  caller's. A value found under the key \<open>send\<close> is a function or anything else.
\<close>

datatype send_fn = Default_send | Caller_send nat

datatype send_value = Send_undefined | Send_null | Send_not_a_function | Send_function send_fn

text \<open>The body of the default: \<open>()=>{throw new Error("Please Provide Send Function")}\<close>.\<close>

definition default_send_body :: "error + unit" where
  "default_send_body = Inl (Error ''Please Provide Send Function'')"

datatype shards_value = Shards_undefined | Shards int

record resume_options =
  key :: string
  timeout :: int

datatype resuming_value =
    Resuming_undefined | Resuming_null | Resuming_boolean bool | Resuming_options resume_options

record reconnect_options =
  auto :: bool
  delay :: int
  maxTries :: int

text \<open>
  \<open>Plugin.ts\<close> is not among the sources: a plugin is what its \<open>load\<close> and its \<open>init\<close>
  throw, if anything.
\<close>

record plugin =
  load :: "error option"
  init_plugin :: "error option"

text \<open>
  \<open>ManagerOptions\<close>. Each field is \<open>None\<close> when the object has no such own property;
  \<open>Object.assign\<close> copies the properties that are present, whatever their value.
\<close>

record manager_options =
  opt_send :: "send_value option"
  opt_auto_fallback_socket :: "bool option"
  opt_shards :: "shards_value option"
  opt_userId :: "jsstr option"
  opt_plugins :: "plugin list option"
  opt_resuming :: "resuming_value option"
  opt_reconnect :: "reconnect_options option"

text \<open>
  The module-level object \<open>defaults\<close> as the module creates it; the argument is the key
  drawn by \<open>Math.random().toString(32)\<close>.
\<close>

definition defaults :: "string \<Rightarrow> manager_options" where
  "defaults k = \<lparr>opt_send = Some (Send_function Default_send),
     opt_auto_fallback_socket = Some True,
     opt_shards = Some (Shards 1),
     opt_userId = None,
     opt_plugins = None,
     opt_resuming = Some (Resuming_options \<lparr>key = k, timeout = 60000\<rparr>),
     opt_reconnect = Some \<lparr>auto = True, delay = 15000, maxTries = 5\<rparr>\<rparr>"

fun assign_property :: "'a option \<Rightarrow> 'a option \<Rightarrow> 'a option" where
  "assign_property t None = t"
| "assign_property t (Some v) = Some v"

text \<open>\<open>Object.assign(target, source)\<close>, which changes and returns \<open>target\<close>.\<close>

definition assign :: "manager_options \<Rightarrow> manager_options \<Rightarrow> manager_options" where
  "assign target source =
     \<lparr>opt_send = assign_property (opt_send target) (opt_send source),
      opt_auto_fallback_socket =
        assign_property (opt_auto_fallback_socket target) (opt_auto_fallback_socket source),
      opt_shards = assign_property (opt_shards target) (opt_shards source),
      opt_userId = assign_property (opt_userId target) (opt_userId source),
      opt_plugins = assign_property (opt_plugins target) (opt_plugins source),
      opt_resuming = assign_property (opt_resuming target) (opt_resuming source),
      opt_reconnect = assign_property (opt_reconnect target) (opt_reconnect source)\<rparr>"

record socket_data =
  data_id :: string

record manager =
  sockets :: sockets
  players :: "(string \<times> player) list"
  nodes :: "socket_data list"
  options :: manager_options
  userId :: jsstr
  send :: send_fn
  resuming :: resuming_value
  plugins :: "plugin list"
  socketClose_fallback :: bool
  next_pid :: nat

fun read_send :: "send_value option \<Rightarrow> send_value" where
  "read_send None = Send_undefined"
| "read_send (Some v) = v"

fun read_shards :: "shards_value option \<Rightarrow> shards_value" where
  "read_shards None = Shards_undefined"
| "read_shards (Some v) = v"

fun read_str :: "jsstr option \<Rightarrow> jsstr" where
  "read_str None = Undefined"
| "read_str (Some v) = v"

fun read_resuming :: "resuming_value option \<Rightarrow> resuming_value" where
  "read_resuming None = Resuming_undefined"
| "read_resuming (Some v) = v"

text \<open>
  \<open>this.options.shards < 1\<close>: \<open>undefined\<close> converts to NaN, and the comparison is false.
\<close>

fun shards_lt_1 :: "shards_value \<Rightarrow> bool" where
  "shards_lt_1 Shards_undefined = False"
| "shards_lt_1 (Shards n) = (n < 1)"

text \<open>
  The value given to \<open>this.resuming\<close>. After \<open>Object.assign\<close> the names \<open>options\<close> and
  \<open>defaults\<close> denote the same object, so \<open>defaults.resuming\<close> is \<open>options.resuming\<close>.
\<close>

fun resuming_of :: "resuming_value \<Rightarrow> resuming_value" where
  "resuming_of (Resuming_boolean b) = (if \<not> b then Resuming_null else Resuming_boolean b)"
| "resuming_of Resuming_undefined = Resuming_undefined"
| "resuming_of Resuming_null = Resuming_null"
| "resuming_of (Resuming_options r) = Resuming_options r"

text \<open>
  The loop over \<open>options.plugins\<close>: each plugin is pushed, then loaded; the first
  \<open>load\<close> that throws ends the constructor with its error.
\<close>

fun load_plugins :: "plugin list \<Rightarrow> error option" where
  "load_plugins [] = None"
| "load_plugins (pl # pls) = (case load pl of Some e \<Rightarrow> Some e | None \<Rightarrow> load_plugins pls)"

text \<open>
  The constructor. It takes \<open>defaults\<close> as it is when the constructor is called, and
  returns it as \<open>Object.assign\<close> leaves it, with the manager or the error thrown.
\<close>

definition constructor ::
  "manager_options \<Rightarrow> socket_data list \<Rightarrow> manager_options \<Rightarrow> manager_options \<times> (error + manager)"
where
  "constructor dflt nds opts =
     (let options' = assign dflt opts in
      (options',
       case read_send (opt_send options') of
         Send_function f \<Rightarrow>
           if shards_lt_1 (read_shards (opt_shards options'))
           then Inl (TypeError ''Shard count must be 1 or greater.'')
           else
             (let pls = (case opt_plugins options' of None \<Rightarrow> [] | Some ps \<Rightarrow> ps) in
              case load_plugins pls of
                Some e \<Rightarrow> Inl e
              | None \<Rightarrow>
                  Inr \<lparr>sockets = [], players = [], nodes = nds, options = options',
                       userId = read_str (opt_userId options'),
                       send = f,
                       resuming = resuming_of (read_resuming (opt_resuming options')),
                       plugins = pls,
                       socketClose_fallback =
                         (case opt_auto_fallback_socket options' of None \<Rightarrow> False | Some b \<Rightarrow> b),
                       next_pid = 0\<rparr>)
       | _ \<Rightarrow> Inl (TypeError ''Please provide a send function for sending packets to discord.'')))"

text \<open>An options object with no property at all.\<close>

definition no_options :: manager_options where
  "no_options = \<lparr>opt_send = None, opt_auto_fallback_socket = None, opt_shards = None,
     opt_userId = None, opt_plugins = None, opt_resuming = None, opt_reconnect = None\<rparr>"

text \<open>\<open>guild: string | Dictionary\<close>; the id is \<open>guild\<close> itself or \<open>guild.id\<close>.\<close>

datatype guild_arg = Guild_string string | Guild_dictionary string

fun guild_id_of :: "guild_arg \<Rightarrow> string" where
  "guild_id_of (Guild_string s) = s"
| "guild_id_of (Guild_dictionary i) = i"

text \<open>
  \<open>create(guild, socket = this.ideal[0])\<close>. The socket argument is \<open>None\<close> when the
  caller omits it; the default is then \<open>this.ideal[0]\<close>, itself \<open>None\<close> when
  \<open>undefined\<close>. A throw leaves the manager as it was.
\<close>

definition create :: "guild_arg \<Rightarrow> socket option \<Rightarrow> manager \<Rightarrow> error + (player \<times> manager)" where
  "create g socket_arg m =
     (let sock = (case socket_arg of None \<Rightarrow> ideal_0 (sockets m) | Some s \<Rightarrow> Some s);
          gid = guild_id_of g
      in case map_of (players m) gid of
           Some existing \<Rightarrow> Inr (existing, m)
         | None \<Rightarrow>
             (case sock of
                None \<Rightarrow> Inl (Error ''Manager#create(): No available nodes.'')
              | Some s \<Rightarrow>
                  (let pl = new_player (next_pid m) s gid
                   in Inr (pl, m\<lparr>players := AList.update gid pl (players m),
                                  next_pid := Suc (next_pid m)\<rparr>))))"

text \<open>
  \<open>destroy(guild)\<close>: the result, the manager afterwards and the calls made on the
  player.
\<close>

definition destroy :: "guild_arg \<Rightarrow> manager \<Rightarrow> bool \<times> manager \<times> call list" where
  "destroy g m =
     (let gid = guild_id_of g
      in case map_of (players m) gid of
           Some pl \<Rightarrow> (True, m\<lparr>players := AList.delete gid (players m)\<rparr>, [Destroy True])
         | None \<Rightarrow> (False, m, []))"

text \<open>\<open>serverUpdate(update)\<close>.\<close>

definition serverUpdate :: "voice_server \<Rightarrow> manager \<Rightarrow> manager \<times> call list" where
  "serverUpdate u m =
     (case map_of (players m) (server_guild_id u) of
        None \<Rightarrow> (m, [])
      | Some pl \<Rightarrow>
          (let (pl', cs) = handleVoiceUpdate (Server_update u) pl
           in (m\<lparr>players := AList.update (server_guild_id u) pl' (players m)\<rparr>, cs)))"

text \<open>
  \<open>stateUpdate(update)\<close>: the manager afterwards and the calls made on the player, the
  event emitted first.
\<close>

definition stateUpdate :: "voice_state \<Rightarrow> manager \<Rightarrow> manager \<times> call list" where
  "stateUpdate u m =
     (case map_of (players m) (guild_id u) of
        None \<Rightarrow> (m, [])
      | Some pl \<Rightarrow>
          if Str (user_id u) = userId m then
            (let (pl1, cs1) =
                   (if channel_id u \<noteq> channel pl
                    then (pl\<lparr>channel := channel_id u\<rparr>, [Emit ''move'' (channel_id u)])
                    else (pl, []));
                 (pl2, cs2) = handleVoiceUpdate (State_update u) pl1
             in (m\<lparr>players := AList.update (guild_id u) pl2 (players m)\<rparr>, cs1 @ cs2))
          else (m, []))"

section \<open>Failover (Manager.fallback)\<close>

text \<open>
  The callback that \<open>fallback\<close> runs on each player takes one of three ways: the player
  is on another socket; \<open>!p.channel\<close> holds and the player is deleted from the map; or
  the position and the time are captured and \<open>find_socket\<close> is called.
\<close>

datatype branch = Other_socket | Delete_player | Find_socket

definition fallback_branch :: "socket \<Rightarrow> player \<Rightarrow> branch" where
  "fallback_branch lost p =
     (if socket p = socket_id lost then
        (if \<not> truthy (channel p) then Delete_player else Find_socket)
      else Other_socket)"

text \<open>
  Positions and clock readings are JavaScript numbers, that is IEEE doubles, holding
  whole milliseconds. The sum and the difference of two doubles are the exact result
  rounded to the nearest double, a tie going to the even significand. Every integer of
  absolute value up to 2^53 = 9007199254740992 is a double; a larger double has 53
  significant bits, so it is a multiple of \<open>2 ^ (bitlen - 53)\<close>. A result of 2^1024 or
  more, where the code has \<open>Infinity\<close>, is outside this model.
\<close>

definition round_double :: "int \<Rightarrow> int" where
  "round_double x =
     (if \<bar>x\<bar> \<le> 9007199254740992 then x
      else
        (let q = 2 ^ nat (bitlen \<bar>x\<bar> - 53);
             n = \<bar>x\<bar> div q;
             r = \<bar>x\<bar> mod q;
             n' = (if 2 * r < q then n
                   else if q < 2 * r then n + 1
                   else if even n then n else n + 1)
         in sgn x * (n' * q)))"

definition js_plus :: "int \<Rightarrow> int \<Rightarrow> int" where
  "js_plus a b = round_double (a + b)"

definition js_minus :: "int \<Rightarrow> int \<Rightarrow> int" where
  "js_minus a b = round_double (a - b)"

text \<open>
  One run of \<open>find_socket\<close>, with \<open>position\<close> and \<open>startfind\<close> as the callback captured
  them, \<open>found_time\<close> the clock read by this run, \<open>socks\<close> the sockets of the manager
  and \<open>p\<close> the Player as it is at this run. Without an ideal socket it sets a timer of
  1000 ms for the next run. Otherwise it returns the player as moved and the calls made
  on it, in order.
\<close>

datatype found = Retry int | Found player "call list"

definition find_socket :: "int \<Rightarrow> int \<Rightarrow> int \<Rightarrow> sockets \<Rightarrow> player \<Rightarrow> found" where
  "find_socket pos startfind found_time socks p =
     (case ideal_0 socks of
        None \<Rightarrow> Retry 1000
      | Some s \<Rightarrow>
          (let offs = js_plus (js_minus found_time startfind) 1000;
               p' = move s p
           in Found p'
                ([Move (socket_id s),
                  Send ''voiceUpdate'' (Voice_update_data (sessionId p') (server p')) None,
                  apply_filters None (filters p')]
                 @ (if truthy (track p') then [Play (track p') (js_plus pos offs)] else []))))"

text \<open>
  The runs of \<open>find_socket\<close>, one per element of the schedule: the clock, the sockets of
  the manager, and the Player as it is at that run. \<open>find_socket\<close> holds the Player
  object itself, which other events may have changed since the socket was lost, while
  \<open>position\<close> and \<open>startfind\<close> are the values captured then. The result is \<open>None\<close> when
  every run of the schedule has set the timer again.
\<close>

fun poll :: "int \<Rightarrow> int \<Rightarrow> (int \<times> sockets \<times> player) list \<Rightarrow> (player \<times> call list) option" where
  "poll pos startfind [] = None"
| "poll pos startfind ((found_time, socks, p) # rest) =
     (case find_socket pos startfind found_time socks p of
        Retry ms \<Rightarrow> poll pos startfind rest
      | Found p' cs \<Rightarrow> Some (p', cs))"

text \<open>
  What the callback does with one player: \<open>p\<close> is the Player when the socket is lost,
  \<open>now\<close> the clock read for \<open>startfind\<close>. \<open>Waiting\<close> carries the captured position and
  time, while no run has found a socket.
\<close>

datatype outcome = Unaffected | Removed | Waiting int int | Relocated player

definition failover ::
  "socket \<Rightarrow> int \<Rightarrow> (int \<times> sockets \<times> player) list \<Rightarrow> player \<Rightarrow> outcome \<times> call list"
where
  "failover lost now schedule p =
     (case fallback_branch lost p of
        Other_socket \<Rightarrow> (Unaffected, [])
      | Delete_player \<Rightarrow> (Removed, [])
      | Find_socket \<Rightarrow>
          (let pos = max (position p) 0;
               startfind = now
           in case poll pos startfind schedule of
                None \<Rightarrow> (Waiting pos startfind, [])
              | Some (p', cs) \<Rightarrow> (Relocated p', cs)))"

text \<open>
  \<open>this.players.forEach\<close> with the deletions of the callback: \<open>todo\<close> holds the entries
  not yet visited, \<open>ps\<close> is the map. An entry deleted before its turn is not visited.
\<close>

function fallback_forEach ::
  "socket \<Rightarrow> (string \<times> player) list \<Rightarrow> (string \<times> player) list \<Rightarrow> (string \<times> player) list"
where
  "fallback_forEach lost [] ps = ps"
| "fallback_forEach lost ((k, p) # todo) ps =
     (if fallback_branch lost p = Delete_player
      then fallback_forEach lost (AList.delete (guild p) todo) (AList.delete (guild p) ps)
      else fallback_forEach lost todo ps)"
  by pat_completeness auto
termination
  by (relation "measure (\<lambda>(lost, todo, ps). length todo)")
     (auto simp: AList.delete_eq intro: le_imp_less_Suc)

text \<open>
  \<open>fallback(socket)\<close>, as it leaves the manager: the callback changes nothing but the
  map of players. What it does with each player is \<open>failover\<close>.
\<close>

definition fallback :: "socket \<Rightarrow> manager \<Rightarrow> manager" where
  "fallback lost m = m\<lparr>players := fallback_forEach lost (players m) (players m)\<rparr>"

section \<open>Initialisation (Manager.init)\<close>

text \<open>
  The loop of \<open>init\<close> over the configured nodes. \<open>Socket.ts\<close> is not among the sources:
  \<open>connect\<close> stands for \<open>new Socket(this, s)\<close> followed by \<open>socket.connect()\<close>, and gives
  the socket or the error thrown, which is emitted as \<open>socketError\<close>.
\<close>

fun init_nodes ::
  "(socket_data \<Rightarrow> error + socket) \<Rightarrow> socket_data list \<Rightarrow> sockets \<Rightarrow> sockets \<times> error list"
where
  "init_nodes connect [] socks = (socks, [])"
| "init_nodes connect (s # ss) socks =
     (case map_of socks (data_id s) of
        Some existing \<Rightarrow> init_nodes connect ss socks
      | None \<Rightarrow>
          (case connect s of
             Inl e \<Rightarrow> (let (socks', es) = init_nodes connect ss socks in (socks', e # es))
           | Inr sock \<Rightarrow> init_nodes connect ss (AList.update (data_id s) sock socks)))"

fun init_plugins :: "plugin list \<Rightarrow> error option" where
  "init_plugins [] = None"
| "init_plugins (pl # pls) =
     (case init_plugin pl of Some e \<Rightarrow> Some e | None \<Rightarrow> init_plugins pls)"

text \<open>
  \<open>init(userId = this.userId)\<close>: the argument is \<open>None\<close> when omitted. The result is the
  manager afterwards, the error thrown if any, and the \<open>socketError\<close> events emitted.
  The user id is assigned before the plugins are initialised, so it stays assigned when
  one of them throws.
\<close>

definition init ::
  "(socket_data \<Rightarrow> error + socket) \<Rightarrow> jsstr option \<Rightarrow> manager
     \<Rightarrow> manager \<times> error option \<times> error list"
where
  "init connect userId_arg m =
     (let uid = (case userId_arg of None \<Rightarrow> userId m | Some Undefined \<Rightarrow> userId m | Some u \<Rightarrow> u)
      in if \<not> truthy uid then (m, Some (Error ''Provide a client id for lavalink to use.''), [])
         else
           (let m1 = m\<lparr>userId := uid\<rparr>
            in case init_plugins (plugins m1) of
                 Some e \<Rightarrow> (m1, Some e, [])
               | None \<Rightarrow>
                   (let (socks, es) = init_nodes connect (nodes m1) (sockets m1)
                    in (m1\<lparr>sockets := socks\<rparr>, None, es))))"

section \<open>Concrete states\<close>

definition socket_X :: socket where
  "socket_X = \<lparr>socket_id = ''X'', status = RECONNECTING, penalties = 0\<rparr>"

definition socket_Y :: socket where
  "socket_Y = \<lparr>socket_id = ''Y'', status = CONNECTED, penalties = 0\<rparr>"

text \<open>
  The player of the failover scenario: bound to X, in channel c1, at position 42000,
  playing track T, with both handshake halves.
\<close>

definition player_P :: player where
  "player_P = \<lparr>pid = 0, guild = ''g1'', socket = ''X'', channel = Str ''c1'',
     position = 42000, track = Str ''T'', sessionId = Str ''s1'',
     server = Some \<lparr>token = ''t'', server_guild_id = ''g1'', endpoint = ''e''\<rparr>,
     filters = new_filters\<rparr>"

definition manager_1 :: manager where
  "manager_1 = \<lparr>sockets = [(''X'', socket_X)], players = [(''g1'', player_P)], nodes = [],
     options = defaults [], userId = Str ''bot'', send = Caller_send 0,
     resuming = Resuming_null, plugins = [], socketClose_fallback = True, next_pid = 1\<rparr>"

definition player_Q :: player where
  "player_Q = new_player 1 socket_Y ''g2''"

definition manager_2 :: manager where
  "manager_2 = manager_1\<lparr>players := [(''g1'', player_P), (''g2'', player_Q)], next_pid := 2\<rparr>"

text \<open>
  A voice state update of another user, and one of the manager's own user that names
  another channel.
\<close>

definition state_other_user :: voice_state where
  "state_other_user = \<lparr>channel_id = Str ''c2'', guild_id = ''g1'', user_id = ''someone'',
     session_id = ''s2''\<rparr>"

definition state_moved :: voice_state where
  "state_moved = \<lparr>channel_id = Str ''c2'', guild_id = ''g1'', user_id = ''bot'',
     session_id = ''s2''\<rparr>"

text \<open>
  Variants of the player of the scenario: at a later position, with no channel, and
  with neither handshake half.
\<close>

definition player_P_later :: player where
  "player_P_later = player_P\<lparr>position := 47000\<rparr>"

definition player_no_channel :: player where
  "player_no_channel = player_P\<lparr>channel := Null\<rparr>"

definition player_no_handshake :: player where
  "player_no_handshake = player_P\<lparr>sessionId := Undefined, server := None\<rparr>"

definition manager_no_channel :: manager where
  "manager_no_channel = manager_1\<lparr>players := [(''g1'', player_no_channel)]\<rparr>"

text \<open>The manager that the constructor makes from an options object with no property.\<close>

definition manager_default_send :: manager where
  "manager_default_send = \<lparr>sockets = [], players = [], nodes = [], options = defaults [],
     userId = Undefined, send = Default_send,
     resuming = Resuming_options \<lparr>key = [], timeout = 60000\<rparr>,
     plugins = [], socketClose_fallback = True, next_pid = 0\<rparr>"

section \<open>Node selection: proofs\<close>












section \<open>The filters payload: proofs\<close>

lemma keys_payload:
  "keys (payload f) =
     {''volume'', ''equalizer''}
     \<union> (if isTimescaleEnabled f then {''timescale''} else {})
     \<union> (if isKaraokeEnabled f then {''karaoke''} else {})
     \<union> (if isTremoloEnabled f then {''tremolo''} else {})
     \<union> (if isRotationEnabled f then {''rotation''} else {})
     \<union> (if isDistortionEnabled f then {''distortion''} else {})"
  by (simp add: keys_def payload_def)

lemma own_values_set: "v \<in> set (own_values ps) \<longleftrightarrow> Some v \<in> set ps"
  by (induction ps rule: own_values.induct) auto

lemma read_num_neq: "read_num x \<noteq> Num c \<longleftrightarrow> x \<noteq> Some (Num c)"
  by (cases x) simp_all

lemma isTimescaleEnabled_iff:
  "isTimescaleEnabled f \<longleftrightarrow>
     (\<exists>t. timescale f = Some t \<and> (\<exists>v. Some v \<in> {pitch t, rate t, speed t} \<and> v \<noteq> Num 1))"
  by (cases "timescale f")
     (auto simp: isTimescaleEnabled_def timescale_values_def list_ex_iff own_values_set)

lemma isDistortionEnabled_iff:
  "isDistortionEnabled f \<longleftrightarrow>
     (\<exists>d. distortion f = Some d
        \<and> (\<exists>v. Some v \<in> {sinOffset d, sinScale d, cosOffset d, cosScale d,
                          tanOffset d, tanScale d, offset d, scale d} \<and> v \<noteq> Num_null))"
  by (cases "distortion f")
     (auto simp: isDistortionEnabled_def distortion_values_def list_ex_iff own_values_set)

lemma isKaraokeEnabled_iff: "isKaraokeEnabled f \<longleftrightarrow> karaoke f \<noteq> None"
  by (simp add: isKaraokeEnabled_def split: option.splits)

lemma isTremoloEnabled_iff:
  "isTremoloEnabled f \<longleftrightarrow> (\<exists>t. tremolo f = Some t \<and> depth t \<noteq> Some (Num 0))"
  by (cases "tremolo f") (simp_all add: isTremoloEnabled_def read_num_neq)

lemma isRotationEnabled_iff:
  "isRotationEnabled f \<longleftrightarrow> (\<exists>r. rotation f = Some r \<and> rotationHz r \<noteq> Some (Num 0))"
  by (cases "rotation f") (simp_all add: isRotationEnabled_def read_num_neq)

text \<open>
  C4. For every \<open>Filters\<close> instance the payload has the keys \<open>volume\<close> and
  \<open>equalizer\<close>, and has each other key exactly when its filter is enabled: timescale
  non-null with some property different from 1, karaoke non-null, tremolo non-null with
  a depth other than 0, rotation non-null with a rotationHz other than 0, distortion
  non-null with some property different from null. The payload has no further key.
\<close>

theorem payload_keys:
  "''volume'' \<in> keys (payload f) \<and> ''equalizer'' \<in> keys (payload f)
   \<and> (''timescale'' \<in> keys (payload f) \<longleftrightarrow>
        (\<exists>t. timescale f = Some t \<and> (\<exists>v. Some v \<in> {pitch t, rate t, speed t} \<and> v \<noteq> Num 1)))
   \<and> (''karaoke'' \<in> keys (payload f) \<longleftrightarrow> karaoke f \<noteq> None)
   \<and> (''tremolo'' \<in> keys (payload f) \<longleftrightarrow>
        (\<exists>t. tremolo f = Some t \<and> depth t \<noteq> Some (Num 0)))
   \<and> (''rotation'' \<in> keys (payload f) \<longleftrightarrow>
        (\<exists>r. rotation f = Some r \<and> rotationHz r \<noteq> Some (Num 0)))
   \<and> (''distortion'' \<in> keys (payload f) \<longleftrightarrow>
        (\<exists>d. distortion f = Some d
           \<and> (\<exists>v. Some v \<in> {sinOffset d, sinScale d, cosOffset d, cosScale d,
                             tanOffset d, tanScale d, offset d, scale d} \<and> v \<noteq> Num_null)))
   \<and> keys (payload f) \<subseteq> {''volume'', ''equalizer'', ''timescale'', ''karaoke'', ''tremolo'',
                            ''rotation'', ''distortion''}"
proof -
  have k: "''timescale'' \<in> keys (payload f) \<longleftrightarrow> isTimescaleEnabled f"
    "''karaoke'' \<in> keys (payload f) \<longleftrightarrow> isKaraokeEnabled f"
    "''tremolo'' \<in> keys (payload f) \<longleftrightarrow> isTremoloEnabled f"
    "''rotation'' \<in> keys (payload f) \<longleftrightarrow> isRotationEnabled f"
    "''distortion'' \<in> keys (payload f) \<longleftrightarrow> isDistortionEnabled f"
    "''volume'' \<in> keys (payload f)" "''equalizer'' \<in> keys (payload f)"
    "keys (payload f) \<subseteq> {''volume'', ''equalizer'', ''timescale'', ''karaoke'', ''tremolo'',
                            ''rotation'', ''distortion''}"
    by (simp_all add: keys_payload)
  show ?thesis
    unfolding k(1-5)
    using k(6-8) isTimescaleEnabled_iff [of f] isKaraokeEnabled_iff [of f]
      isTremoloEnabled_iff [of f] isRotationEnabled_iff [of f] isDistortionEnabled_iff [of f]
    by blast
qed

section \<open>Creating players: proofs\<close>

lemma create_existing:
  "map_of (players m) (guild_id_of g) = Some p \<Longrightarrow> create g s m = Inr (p, m)"
  by (simp add: create_def)

lemma map_of_update_same: "map_of (AList.update k v al) k = Some v"
  by (simp add: AList.update_conv')

lemma create_registers:
  assumes "create g s m = Inr (p, m')"
  shows "map_of (players m') (guild_id_of g) = Some p"
proof (cases "map_of (players m) (guild_id_of g)")
  case (Some existing)
  with assms show ?thesis
    by (simp add: create_def)
next
  case None
  with assms show ?thesis
    by (auto simp: create_def Let_def map_of_update_same split: option.splits)
qed

lemma create_error:
  assumes "create g s m = Inl e"
  shows "map_of (players m) (guild_id_of g) = None \<and> s = None \<and> ideal_0 (sockets m) = None
    \<and> e = Error ''Manager#create(): No available nodes.''"
  using assms by (auto simp: create_def Let_def split: option.splits)

lemma create_Q: "create (Guild_string ''g2'') (Some socket_Y) manager_1 = Inr (player_Q, manager_2)"
  by (simp add: create_def manager_1_def manager_2_def player_Q_def Let_def numeral_2_eq_2)

lemma ideal_0_manager_1: "ideal_0 (sockets manager_1) = None"
  by (simp add: manager_1_def ideal_0_def ideal_def socket_X_def)

text \<open>
  C3. When a call of \<open>create\<close> has returned a player, a second call with the same guild
  id (given as a string or as an object, with any socket argument or none) returns the
  same Player, identity and fields, and leaves the manager, hence the socket the player
  is bound to, as it was.
\<close>

theorem create_twice_same_player:
  "guild_id_of g' = guild_id_of g \<Longrightarrow> create g s m = Inr (p, m')
   \<Longrightarrow> create g' s' m' = Inr (p, m') \<and> map_of (players m') (guild_id_of g) = Some p"
  using create_registers [of g s m p m'] create_existing [of m' g' p s'] by simp

theorem create_twice_same_player_witness:
  "create (Guild_string ''g2'') (Some socket_Y) manager_1 = Inr (player_Q, manager_2)
   \<and> create (Guild_dictionary ''g2'') (Some socket_X) manager_2 = Inr (player_Q, manager_2)
   \<and> socket player_Q = ''Y''"
  using create_twice_same_player [of "Guild_dictionary ''g2''" "Guild_string ''g2''"
      "Some socket_Y" manager_1 player_Q manager_2 "Some socket_X"] create_Q
  by (simp add: player_Q_def new_player_def socket_Y_def)

text \<open>
  C10. \<open>create\<close> for a guild id that has a Player returns that Player and leaves the
  manager as it was, whatever the socket argument and whatever the sockets, also when
  none is available. When \<open>create\<close> throws, the guild id had no Player, no socket was
  given, none was ideal, and the error is the one for no available nodes.
\<close>

theorem create_existing_needs_no_node:
  "(map_of (players m) (guild_id_of g) = Some p \<longrightarrow> create g s m = Inr (p, m))
   \<and> (create g s m = Inl e \<longrightarrow>
        map_of (players m) (guild_id_of g) = None \<and> s = None \<and> ideal_0 (sockets m) = None
        \<and> e = Error ''Manager#create(): No available nodes.'')"
  using create_existing [of m g p s] create_error [of g s m e] by blast

theorem create_existing_needs_no_node_witness:
  "ideal_0 (sockets manager_1) = None
   \<and> create (Guild_string ''g1'') None manager_1 = Inr (player_P, manager_1)
   \<and> create (Guild_string ''g2'') None manager_1
       = Inl (Error ''Manager#create(): No available nodes.'')
   \<and> map_of (players manager_1) ''g2'' = None"
proof -
  have a: "map_of (players manager_1) (guild_id_of (Guild_string ''g1'')) = Some player_P"
    by (simp add: manager_1_def)
  have b: "create (Guild_string ''g2'') None manager_1
             = Inl (Error ''Manager#create(): No available nodes.'')"
    using ideal_0_manager_1 by (simp add: create_def manager_1_def)
  from a create_existing_needs_no_node [of manager_1 "Guild_string ''g1''" player_P None]
  have "create (Guild_string ''g1'') None manager_1 = Inr (player_P, manager_1)"
    by blast
  moreover from b create_existing_needs_no_node [of manager_1 "Guild_string ''g2''" _ None
      "Error ''Manager#create(): No available nodes.''"]
  have "map_of (players manager_1) ''g2'' = None"
    by simp
  ultimately show ?thesis
    using ideal_0_manager_1 b by simp
qed

section \<open>Voice state updates: proofs\<close>

lemma stateUpdate_other_user: "Str (user_id u) \<noteq> userId m \<Longrightarrow> stateUpdate u m = (m, [])"
  by (simp add: stateUpdate_def split: option.splits)

lemma handleVoiceUpdate_channel: "channel (fst (handleVoiceUpdate u p)) = channel p"
  by (cases u) (simp_all add: handleVoiceUpdate_def Let_def)

lemma stateUpdate_move:
  assumes "map_of (players m) (guild_id u) = Some p"
    and "Str (user_id u) = userId m"
    and "channel_id u \<noteq> channel p"
  shows "\<exists>m' cs p'. stateUpdate u m = (m', Emit ''move'' (channel_id u) # cs)
    \<and> map_of (players m') (guild_id u) = Some p' \<and> channel p' = channel_id u"
proof -
  let ?p1 = "p\<lparr>channel := channel_id u\<rparr>"
  obtain p2 cs2 where h: "handleVoiceUpdate (State_update u) ?p1 = (p2, cs2)"
    by (cases "handleVoiceUpdate (State_update u) ?p1") blast
  have "channel p2 = channel_id u"
    using handleVoiceUpdate_channel [of "State_update u" ?p1] h by simp
  moreover have "stateUpdate u m
      = (m\<lparr>players := AList.update (guild_id u) p2 (players m)\<rparr>,
         Emit ''move'' (channel_id u) # cs2)"
    using assms h by (simp add: stateUpdate_def)
  moreover have "map_of (players (m\<lparr>players := AList.update (guild_id u) p2 (players m)\<rparr>))
      (guild_id u) = Some p2"
    by (simp add: AList.update_conv')
  ultimately show ?thesis by blast
qed

text \<open>
  C8. A voice state update whose user id is not the manager's leaves the manager, and
  with it every Player (channel and handshake halves), as it was, and makes no call: no
  event, no voice update. When the user id is the manager's and the channel id of the
  update differs from the channel of the guild's Player, the event \<open>move\<close> is emitted
  with the new channel id, first of all calls, and the Player of the guild has the new
  channel id afterwards.
\<close>

theorem stateUpdate_own_user_only:
  "(Str (user_id u) \<noteq> userId m \<longrightarrow> stateUpdate u m = (m, []))
   \<and> (map_of (players m) (guild_id u) = Some p \<and> Str (user_id u) = userId m
        \<and> channel_id u \<noteq> channel p \<longrightarrow>
       (\<exists>m' cs p'. stateUpdate u m = (m', Emit ''move'' (channel_id u) # cs)
          \<and> map_of (players m') (guild_id u) = Some p' \<and> channel p' = channel_id u))"
  using stateUpdate_other_user [of u m] stateUpdate_move [of m u p] by blast

theorem stateUpdate_own_user_only_witness:
  "stateUpdate state_other_user manager_1 = (manager_1, [])
   \<and> (\<exists>m' cs p'. stateUpdate state_moved manager_1 = (m', Emit ''move'' (Str ''c2'') # cs)
         \<and> map_of (players m') ''g1'' = Some p' \<and> channel p' = Str ''c2'')"
proof -
  have a: "Str (user_id state_other_user) \<noteq> userId manager_1"
    by (simp add: state_other_user_def manager_1_def)
  have b: "map_of (players manager_1) (guild_id state_moved) = Some player_P"
    "Str (user_id state_moved) = userId manager_1"
    "channel_id state_moved \<noteq> channel player_P"
    by (simp_all add: state_moved_def manager_1_def player_P_def)
  have c: "channel_id state_moved = Str ''c2''" "guild_id state_moved = ''g1''"
    by (simp_all add: state_moved_def)
  from a stateUpdate_own_user_only [of state_other_user manager_1]
  have "stateUpdate state_other_user manager_1 = (manager_1, [])"
    by blast
  moreover from b stateUpdate_own_user_only [of state_moved manager_1 player_P]
  have "\<exists>m' cs p'. stateUpdate state_moved manager_1 = (m', Emit ''move'' (Str ''c2'') # cs)
         \<and> map_of (players m') ''g1'' = Some p' \<and> channel p' = Str ''c2''"
    unfolding c by blast
  ultimately show ?thesis by blast
qed

section \<open>Failover: proofs\<close>

lemma round_double_exact: "\<bar>x\<bar> \<le> 9007199254740992 \<Longrightarrow> round_double x = x"
  by (simp add: round_double_def)

text \<open>
  While the position, the elapsed time and the grace stay within 2^53 together, the
  three operations are exact.
\<close>

lemma start_time_exact:
  assumes "0 \<le> pos" and "pos + \<bar>found_time - startfind\<bar> + 1000 \<le> 9007199254740992"
  shows "js_plus pos (js_plus (js_minus found_time startfind) 1000)
    = pos + (found_time - startfind) + 1000"
proof -
  have "\<bar>found_time - startfind\<bar> \<le> 9007199254740992"
    using assms by linarith
  then have d: "js_minus found_time startfind = found_time - startfind"
    by (simp add: js_minus_def round_double_exact)
  have "\<bar>(found_time - startfind) + 1000\<bar> \<le> 9007199254740992"
    using assms by linarith
  then have e: "js_plus (found_time - startfind) 1000 = (found_time - startfind) + 1000"
    by (simp add: js_plus_def round_double_exact)
  have "\<bar>pos + ((found_time - startfind) + 1000)\<bar> \<le> 9007199254740992"
    using assms by linarith
  then have "js_plus pos ((found_time - startfind) + 1000) = pos + ((found_time - startfind) + 1000)"
    by (simp add: js_plus_def round_double_exact)
  with d e show ?thesis by simp
qed

lemma start_time_44050: "js_plus 42000 (js_plus (js_minus 1150 100) 1000) = 44050"
  using start_time_exact [of 42000 1150 100] by simp

text \<open>
  Beyond 2^53 the sum is rounded as the doubles round it: from the position 2^53, an
  elapsed time of 1051 ms and the grace give 9007199254743044, the exact sum being
  9007199254743043.
\<close>

lemma start_time_rounded:
  "js_plus 9007199254740992 (js_plus (js_minus 1151 100) 1000) = 9007199254743044"
  by code_simp

lemma find_socket_found:
  assumes "ideal_0 socks = Some s"
  shows "find_socket pos startfind found_time socks p =
    Found (move s p)
      ([Move (socket_id s),
        Send ''voiceUpdate'' (Voice_update_data (sessionId p) (server p)) None,
        apply_filters None (filters p)]
       @ (if truthy (track p)
          then [Play (track p) (js_plus pos (js_plus (js_minus found_time startfind) 1000))]
          else []))"
  using assms by (simp add: find_socket_def move_def Let_def)

lemma find_socket_retry:
  "ideal_0 socks = None \<Longrightarrow> find_socket pos startfind found_time socks p = Retry 1000"
  by (simp add: find_socket_def)

lemma poll_retries:
  assumes "\<forall>(t, socks, q) \<in> set pre. ideal_0 socks = None"
  shows "poll pos startfind (pre @ rest) = poll pos startfind rest"
  using assms by (induction pre) (auto simp: find_socket_retry)

lemma poll_waiting:
  assumes "\<forall>(t, socks, q) \<in> set pre. ideal_0 socks = None"
  shows "poll pos startfind pre = None"
  using poll_retries [OF assms, of pos startfind "[]"] by simp

lemma poll_found:
  assumes "\<forall>(t, socks, q) \<in> set pre. ideal_0 socks = None" and "ideal_0 socks = Some s"
  shows "poll pos startfind (pre @ (found_time, socks, p) # post) =
    Some (move s p,
      [Move (socket_id s),
       Send ''voiceUpdate'' (Voice_update_data (sessionId p) (server p)) None,
       apply_filters None (filters p)]
      @ (if truthy (track p)
         then [Play (track p) (js_plus pos (js_plus (js_minus found_time startfind) 1000))]
         else []))"
  using poll_retries [OF assms(1)] find_socket_found [OF assms(2)] by simp

lemma fallback_branch_find:
  "socket p = socket_id lost \<Longrightarrow> truthy (channel p) \<Longrightarrow> fallback_branch lost p = Find_socket"
  by (simp add: fallback_branch_def)

lemma fallback_branch_delete:
  "socket p = socket_id lost \<Longrightarrow> \<not> truthy (channel p) \<Longrightarrow> fallback_branch lost p = Delete_player"
  by (simp add: fallback_branch_def)

lemma apply_filters_default:
  "apply_filters None f = Send ''filters'' (Filters_data (payload f)) (Some False)"
  by (simp add: apply_filters_def)

lemma forEach_keeps_absent:
  "map_of ps g = None \<Longrightarrow> map_of (fallback_forEach lost todo ps) g = None"
  by (induction lost todo ps rule: fallback_forEach.induct) (simp_all add: AList.delete_conv')

lemma forEach_deletes:
  assumes "(guild p, p) \<in> set todo" and "fallback_branch lost p = Delete_player"
  shows "map_of (fallback_forEach lost todo ps) (guild p) = None"
  using assms
proof (induction lost todo ps rule: fallback_forEach.induct)
  case (1 lost ps)
  then show ?case by simp
next
  case (2 lost k q todo ps)
  show ?case
  proof (cases "fallback_branch lost q = Delete_player")
    case del: True
    show ?thesis
    proof (cases "guild q = guild p")
      case True
      have "map_of (AList.delete (guild q) ps) (guild p) = None"
        using True by (simp add: AList.delete_conv')
      then show ?thesis
        using del by (simp add: forEach_keeps_absent)
    next
      case False
      with "2.prems" have "(guild p, p) \<in> set (AList.delete (guild q) todo)"
        by (auto simp: AList.delete_eq)
      with "2.IH"(1) [OF del] "2.prems"(2) del show ?thesis
        by simp
    qed
  next
    case keep: False
    with "2.prems" have "(guild p, p) \<in> set todo"
      by auto
    with "2.IH"(2) [OF keep] "2.prems"(2) keep show ?thesis
      by simp
  qed
qed

lemma ideal_0_X: "ideal_0 [(''X'', socket_X)] = None"
  by (simp add: ideal_0_def ideal_def socket_X_def)

lemma ideal_0_XY: "ideal_0 [(''X'', socket_X), (''Y'', socket_Y)] = Some socket_Y"
  by (simp add: ideal_0_def ideal_def socket_X_def socket_Y_def)

lemma ideal_0_Y: "ideal_0 [(''Y'', socket_Y)] = Some socket_Y"
  by (simp add: ideal_0_def ideal_def socket_Y_def)

lemma payload_new_filters:
  "payload new_filters = [(''volume'', Volume_value 1), (''equalizer'', Equalizer_value [])]"
  by (simp add: payload_def new_filters_def isTimescaleEnabled_def isKaraokeEnabled_def
      isTremoloEnabled_def isRotationEnabled_def isDistortionEnabled_def)

text \<open>
  C1. For a Player on the lost socket whose channel is not null, that is a channel id
  (Discord's ids are never the empty string): while every run of \<open>find_socket\<close> finds
  no ideal socket, the failover is waiting with the position \<open>max(position, 0)\<close> and the
  time \<open>now\<close>, both captured from the Player and the clock before the first run. At the
  first run that finds an ideal socket, at clock \<open>found_time\<close>, the Player as it is
  then, if it has a track, is moved there and \<open>play\<close> is called last with that track
  and the start time \<open>max(position, 0) + (found_time - now) + 1000\<close>, where \<open>position\<close>
  is the one captured at the loss, whatever the Player's position has become. The
  numbers are doubles: the sum is exact while it stays within 2^53 milliseconds.
\<close>

theorem failover_resumes_at_anchor_plus_elapsed:
  assumes "socket p = socket_id lost" and "channel p = Str c" and "c \<noteq> []"
    and "\<forall>(t, socks', q') \<in> set pre. ideal_0 socks' = None"
  shows "failover lost now pre p = (Waiting (max (position p) 0) now, [])
    \<and> (ideal_0 socks = Some s \<and> truthy (track q)
         \<and> max (position p) 0 + \<bar>found_time - now\<bar> + 1000 \<le> 9007199254740992 \<longrightarrow>
         failover lost now (pre @ (found_time, socks, q) # post) p =
           (Relocated (move s q),
            [Move (socket_id s),
             Send ''voiceUpdate'' (Voice_update_data (sessionId q) (server q)) None,
             apply_filters None (filters q),
             Play (track q) (max (position p) 0 + (found_time - now) + 1000)]))"
proof -
  have br: "fallback_branch lost p = Find_socket"
    using assms(1-3) by (simp add: fallback_branch_find)
  have "failover lost now pre p = (Waiting (max (position p) 0) now, [])"
    using br poll_waiting [OF assms(4)] by (simp add: failover_def Let_def)
  moreover have "failover lost now (pre @ (found_time, socks, q) # post) p =
      (Relocated (move s q),
       [Move (socket_id s),
        Send ''voiceUpdate'' (Voice_update_data (sessionId q) (server q)) None,
        apply_filters None (filters q),
        Play (track q) (max (position p) 0 + (found_time - now) + 1000)])"
    if "ideal_0 socks = Some s" and "truthy (track q)"
      and "max (position p) 0 + \<bar>found_time - now\<bar> + 1000 \<le> 9007199254740992"
    using br poll_found [OF assms(4) that(1)] that(2)
      start_time_exact [of "max (position p) 0" found_time now, OF _ that(3)]
    by (simp add: failover_def Let_def)
  ultimately show ?thesis by blast
qed

theorem failover_resumes_at_anchor_plus_elapsed_witness:
  "failover socket_X 100 [(100, [(''X'', socket_X)], player_P)] player_P
     = (Waiting 42000 100, [])
   \<and> failover socket_X 100
        [(100, [(''X'', socket_X)], player_P),
         (1150, [(''X'', socket_X), (''Y'', socket_Y)], player_P_later)] player_P
      = (Relocated (player_P_later\<lparr>socket := ''Y''\<rparr>),
         [Move ''Y'',
          Send ''voiceUpdate'' (Voice_update_data (sessionId player_P) (server player_P)) None,
          Send ''filters''
            (Filters_data [(''volume'', Volume_value 1), (''equalizer'', Equalizer_value [])])
            (Some False),
          Play (Str ''T'') 44050])"
proof -
  have a: "socket player_P = socket_id socket_X" "channel player_P = Str ''c1''" "''c1'' \<noteq> []"
    "\<forall>(t, socks', q') \<in> set [(100, [(''X'', socket_X)], player_P)]. ideal_0 socks' = None"
    using ideal_0_X by (simp_all add: player_P_def socket_X_def)
  have b: "max (position player_P) 0 = 42000" "track player_P_later = Str ''T''"
    "filters player_P_later = new_filters"
    "move socket_Y player_P_later = player_P_later\<lparr>socket := ''Y''\<rparr>"
    "socket_id socket_Y = ''Y''" "sessionId player_P_later = sessionId player_P"
    "server player_P_later = server player_P"
    by (simp_all add: player_P_later_def player_P_def move_def socket_Y_def)
  from failover_resumes_at_anchor_plus_elapsed [OF a,
      of 100 "[(''X'', socket_X), (''Y'', socket_Y)]" socket_Y player_P_later 1150 "[]"]
    ideal_0_XY
  show ?thesis
    by (simp add: b apply_filters_default payload_new_filters)
qed

text \<open>
  C5, as the code has it. A Player of the map, stored under its guild, that is on the
  lost socket and has no channel (\<open>null\<close>, \<open>undefined\<close> or the empty string) is no
  longer in the map after \<open>fallback\<close>, and the failover ends for it there: no run of
  \<open>find_socket\<close>, and no call on the Player, so that \<open>Player.destroy\<close>, which
  \<open>Manager.destroy\<close> calls before it deletes, is not called.
\<close>

theorem fallback_removes_player_without_channel:
  assumes "(guild p, p) \<in> set (players m)" and "socket p = socket_id lost"
    and "\<not> truthy (channel p)"
  shows "map_of (players (fallback lost m)) (guild p) = None
    \<and> failover lost now schedule p = (Removed, [])"
  using forEach_deletes [OF assms(1) fallback_branch_delete [OF assms(2,3)], of "players m"]
    fallback_branch_delete [OF assms(2,3)]
  by (simp add: fallback_def failover_def)

theorem fallback_removes_player_without_channel_witness:
  "map_of (players (fallback socket_X manager_no_channel)) ''g1'' = None
   \<and> failover socket_X 100 [(1150, [(''Y'', socket_Y)], player_no_channel)] player_no_channel = (Removed, [])"
proof -
  have a: "(guild player_no_channel, player_no_channel) \<in> set (players manager_no_channel)"
    "socket player_no_channel = socket_id socket_X" "\<not> truthy (channel player_no_channel)"
    by (simp_all add: manager_no_channel_def manager_1_def player_no_channel_def player_P_def
        socket_X_def)
  have "guild player_no_channel = ''g1''"
    by (simp add: player_no_channel_def player_P_def)
  with fallback_removes_player_without_channel [OF a, of 100
      "[(1150, [(''Y'', socket_Y)], player_no_channel)]"]
  show ?thesis by simp
qed

theorem fallback_no_teardown_counterexample:
  "channel player_no_channel = Null \<and> socket player_no_channel = socket_id socket_X
   \<and> snd (failover socket_X 100 [(1150, [(''Y'', socket_Y)], player_no_channel)] player_no_channel) = []
   \<and> snd (snd (destroy (Guild_string ''g1'') manager_no_channel)) = [Destroy True]"
  by (simp add: failover_def fallback_branch_def destroy_def manager_no_channel_def
      manager_1_def player_no_channel_def player_P_def socket_X_def)

text \<open>
  C6, as the code has it. A run of \<open>find_socket\<close> that finds an ideal socket moves the
  Player there and sends the voice update with the session id and the server payload
  the Player holds, whatever they are: there is no test of the two halves, and no call
  of \<open>destroy\<close>.
\<close>

theorem find_socket_sends_voice_update_unconditionally:
  assumes "ideal_0 socks = Some s"
  shows "\<exists>cs. find_socket pos startfind found_time socks p =
      Found (move s p)
        (Move (socket_id s)
         # Send ''voiceUpdate'' (Voice_update_data (sessionId p) (server p)) None # cs)
    \<and> (\<forall>b. Destroy b \<notin> set cs)"
  using find_socket_found [OF assms, of pos startfind found_time p]
  by (simp add: apply_filters_default)

theorem find_socket_sends_voice_update_unconditionally_witness:
  "\<exists>cs. find_socket 42000 100 1150 [(''Y'', socket_Y)] player_no_handshake =
      Found (move socket_Y player_no_handshake)
        (Move ''Y'' # Send ''voiceUpdate'' (Voice_update_data Undefined None) None # cs)
    \<and> (\<forall>b. Destroy b \<notin> set cs)"
proof -
  have "sessionId player_no_handshake = Undefined" "server player_no_handshake = None"
    "socket_id socket_Y = ''Y''"
    by (simp_all add: player_no_handshake_def socket_Y_def)
  with find_socket_sends_voice_update_unconditionally [OF ideal_0_Y,
      of 42000 100 1150 player_no_handshake]
  show ?thesis by simp
qed

theorem failover_without_handshake_counterexample:
  "sessionId player_no_handshake = Undefined \<and> server player_no_handshake = None
   \<and> failover socket_X 100 [(1150, [(''Y'', socket_Y)], player_no_handshake)] player_no_handshake
      = (Relocated (player_no_handshake\<lparr>socket := ''Y''\<rparr>),
         [Move ''Y'',
          Send ''voiceUpdate'' (Voice_update_data Undefined None) None,
          Send ''filters''
            (Filters_data [(''volume'', Volume_value 1), (''equalizer'', Equalizer_value [])])
            (Some False),
          Play (Str ''T'') 44050])"
proof -
  have a: "fallback_branch socket_X player_no_handshake = Find_socket"
    by (simp add: fallback_branch_def player_no_handshake_def player_P_def socket_X_def)
  have b: "sessionId player_no_handshake = Undefined" "server player_no_handshake = None"
    "track player_no_handshake = Str ''T''" "filters player_no_handshake = new_filters"
    "position player_no_handshake = 42000" "socket_id socket_Y = ''Y''"
    "move socket_Y player_no_handshake = player_no_handshake\<lparr>socket := ''Y''\<rparr>"
    by (simp_all add: player_no_handshake_def player_P_def socket_Y_def move_def)
  show ?thesis
    using a find_socket_found [OF ideal_0_Y, of 42000 100 1150 player_no_handshake]
    by (simp add: failover_def b apply_filters_default payload_new_filters start_time_44050)
qed

lemma find_socket_P:
  "find_socket 42000 100 1150 [(''Y'', socket_Y)] player_P
     = Found (player_P\<lparr>socket := ''Y''\<rparr>)
         [Move ''Y'',
          Send ''voiceUpdate'' (Voice_update_data (sessionId player_P) (server player_P)) None,
          Send ''filters''
            (Filters_data [(''volume'', Volume_value 1), (''equalizer'', Equalizer_value [])])
            (Some False),
          Play (Str ''T'') 44050]"
proof -
  have b: "track player_P = Str ''T''" "filters player_P = new_filters"
    "socket_id socket_Y = ''Y''" "move socket_Y player_P = player_P\<lparr>socket := ''Y''\<rparr>"
    by (simp_all add: player_P_def socket_Y_def move_def)
  show ?thesis
    using find_socket_found [OF ideal_0_Y, of 42000 100 1150 player_P]
    by (simp add: b apply_filters_default payload_new_filters start_time_44050)
qed

text \<open>
  C9, as the code has it. \<open>find_socket\<close> calls \<open>p.filters.apply()\<close> with no argument,
  so \<open>prioritize\<close> takes its default \<open>false\<close>: the filters of the Player are sent with
  the flag false, and no \<open>filters\<close> message is sent with the flag true.
\<close>

theorem find_socket_filters_not_prioritized:
  assumes "find_socket pos startfind found_time socks p = Found p' cs"
  shows "Send ''filters'' (Filters_data (payload (filters p))) (Some False) \<in> set cs
    \<and> (\<forall>d. Send ''filters'' d (Some True) \<notin> set cs)"
proof (cases "ideal_0 socks")
  case None
  with assms show ?thesis
    by (simp add: find_socket_retry)
next
  case (Some s)
  from assms find_socket_found [OF Some, of pos startfind found_time p]
  have "cs = [Move (socket_id s),
        Send ''voiceUpdate'' (Voice_update_data (sessionId p) (server p)) None,
        apply_filters None (filters p)]
       @ (if truthy (track p)
          then [Play (track p) (js_plus pos (js_plus (js_minus found_time startfind) 1000))]
          else [])"
    by simp
  then show ?thesis
    by (simp add: apply_filters_default)
qed

theorem find_socket_filters_not_prioritized_witness:
  "Send ''filters'' (Filters_data (payload (filters player_P))) (Some False)
     \<in> set [Move ''Y'',
          Send ''voiceUpdate'' (Voice_update_data (sessionId player_P) (server player_P)) None,
          Send ''filters''
            (Filters_data [(''volume'', Volume_value 1), (''equalizer'', Equalizer_value [])])
            (Some False),
          Play (Str ''T'') 44050]"
  using find_socket_filters_not_prioritized [OF find_socket_P] by blast

theorem find_socket_filters_flag_counterexample:
  "find_socket 42000 100 1150 [(''Y'', socket_Y)] player_P
     = Found (player_P\<lparr>socket := ''Y''\<rparr>)
         [Move ''Y'',
          Send ''voiceUpdate'' (Voice_update_data (sessionId player_P) (server player_P)) None,
          Send ''filters''
            (Filters_data [(''volume'', Volume_value 1), (''equalizer'', Equalizer_value [])])
            (Some False),
          Play (Str ''T'') 44050]"
  by (rule find_socket_P)

section \<open>The constructor: proofs\<close>

lemma constructor_send_not_a_function:
  assumes "opt_send opts = Some v" and "\<forall>f. v \<noteq> Send_function f"
  shows "snd (constructor dflt nds opts)
    = Inl (TypeError ''Please provide a send function for sending packets to discord.'')"
  using assms by (cases v) (simp_all add: constructor_def assign_def Let_def)

lemma constructor_shards_lt_1:
  assumes "opt_shards opts = Some (Shards n)" and "n < 1"
  shows "snd (constructor dflt nds opts)
      = Inl (TypeError ''Please provide a send function for sending packets to discord.'')
    \<or> snd (constructor dflt nds opts) = Inl (TypeError ''Shard count must be 1 or greater.'')"
  using assms
  by (cases "read_send (opt_send (assign dflt opts))")
     (simp_all add: constructor_def assign_def Let_def)

lemma constructor_send_omitted:
  assumes "opt_send opts = None"
    and "opt_shards opts = None \<or> (\<exists>n. opt_shards opts = Some (Shards n) \<and> 1 \<le> n)"
    and "opt_plugins opts = None"
  shows "\<exists>m. snd (constructor (defaults k) nds opts) = Inr m \<and> send m = Default_send"
  using assms by (auto simp: constructor_def assign_def defaults_def Let_def)

lemma constructor_no_options:
  "snd (constructor (defaults []) [] no_options) = Inr manager_default_send"
  by (simp add: constructor_def assign_def defaults_def no_options_def
      manager_default_send_def Let_def)

text \<open>
  C7, as the code has it. The constructor throws a TypeError when the options have a
  \<open>send\<close> property whose value is not a function (\<open>undefined\<close>, \<open>null\<close> or anything
  else), and when they have a shard count less than 1. When the options have no \<open>send\<close>
  property, \<open>Object.assign\<close> leaves the function of \<open>defaults\<close> in place: with the
  defaults of the module, a shard count of 1 or more or none, and no plugins, the
  constructor returns a manager whose \<open>send\<close> is that function, the body of which
  throws when it is called.
\<close>

theorem constructor_configuration_errors:
  "(opt_send opts = Some v \<and> (\<forall>f. v \<noteq> Send_function f) \<longrightarrow>
      snd (constructor dflt nds opts)
        = Inl (TypeError ''Please provide a send function for sending packets to discord.''))
   \<and> (opt_shards opts = Some (Shards n) \<and> n < 1 \<longrightarrow>
      snd (constructor dflt nds opts)
          = Inl (TypeError ''Please provide a send function for sending packets to discord.'')
      \<or> snd (constructor dflt nds opts) = Inl (TypeError ''Shard count must be 1 or greater.''))
   \<and> (opt_send opts = None
        \<and> (opt_shards opts = None \<or> (\<exists>n. opt_shards opts = Some (Shards n) \<and> 1 \<le> n))
        \<and> opt_plugins opts = None \<longrightarrow>
      (\<exists>m. snd (constructor (defaults k) nds opts) = Inr m \<and> send m = Default_send))
   \<and> default_send_body = Inl (Error ''Please Provide Send Function'')"
  using constructor_send_not_a_function [of opts v dflt nds]
    constructor_shards_lt_1 [of opts n dflt nds]
    constructor_send_omitted [of opts k nds]
  by (simp add: default_send_body_def)

theorem constructor_configuration_errors_witness:
  "snd (constructor (defaults []) [] (no_options\<lparr>opt_send := Some Send_undefined\<rparr>))
     = Inl (TypeError ''Please provide a send function for sending packets to discord.'')
   \<and> snd (constructor (defaults []) []
        (no_options\<lparr>opt_send := Some (Send_function (Caller_send 0)),
                     opt_shards := Some (Shards 0)\<rparr>))
     = Inl (TypeError ''Shard count must be 1 or greater.'')
   \<and> (\<exists>m. snd (constructor (defaults []) [] no_options) = Inr m \<and> send m = Default_send)"
proof -
  let ?a = "no_options\<lparr>opt_send := Some Send_undefined\<rparr>"
  let ?b = "no_options\<lparr>opt_send := Some (Send_function (Caller_send 0)),
                     opt_shards := Some (Shards 0)\<rparr>"
  have a: "opt_send ?a = Some Send_undefined" "\<forall>f. Send_undefined \<noteq> Send_function f"
    by simp_all
  have b: "opt_shards ?b = Some (Shards 0)" "(0::int) < 1"
    by simp_all
  have c: "opt_send no_options = None" "opt_shards no_options = None"
    "opt_plugins no_options = None"
    by (simp_all add: no_options_def)
  have d: "snd (constructor (defaults []) [] ?b)
      \<noteq> Inl (TypeError ''Please provide a send function for sending packets to discord.'')"
    by (simp add: constructor_def assign_def defaults_def no_options_def Let_def)
  from a constructor_configuration_errors [of ?a Send_undefined "defaults []" "[]"]
  have "snd (constructor (defaults []) [] ?a)
     = Inl (TypeError ''Please provide a send function for sending packets to discord.'')"
    by blast
  moreover from b d constructor_configuration_errors [of ?b _ "defaults []" "[]" 0]
  have "snd (constructor (defaults []) [] ?b)
     = Inl (TypeError ''Shard count must be 1 or greater.'')"
    by blast
  moreover from c constructor_configuration_errors [of no_options _ _ "[]" _ "[]"]
  have "\<exists>m. snd (constructor (defaults []) [] no_options) = Inr m \<and> send m = Default_send"
    by blast
  ultimately show ?thesis by blast
qed

theorem constructor_missing_send_counterexample:
  "opt_send no_options = None
   \<and> snd (constructor (defaults []) [] no_options) = Inr manager_default_send
   \<and> send manager_default_send = Default_send"
  using constructor_no_options by (simp add: no_options_def manager_default_send_def)

section \<open>Initialisation: the order of the sockets\<close>

lemma update_absent: "map_of al k = None \<Longrightarrow> AList.update k v al = al @ [(k, v)]"
  by (induction al) (auto split: if_splits)

text \<open>
  \<open>init\<close> appends the sockets it connects to the map in the order of the configured
  nodes: the order of the map, by which \<open>ideal\<close> breaks ties, is that of the
  configuration.
\<close>

lemma init_nodes_order:
  "\<exists>ks. map fst (fst (init_nodes connect nds socks)) = map fst socks @ ks
     \<and> subseq ks (map data_id nds)"
proof (induction nds arbitrary: socks)
  case Nil
  then show ?case by simp
next
  case (Cons s ss)
  show ?case
  proof (cases "map_of socks (data_id s)")
    case (Some existing)
    with Cons.IH [of socks] show ?thesis
      by (auto intro: subseq_Cons')
  next
    case None
    show ?thesis
    proof (cases "connect s")
      case (Inl e)
      with None Cons.IH [of socks] show ?thesis
        by (auto simp: split_beta)
    next
      case (Inr sock)
      from Cons.IH [of "socks @ [(data_id s, sock)]"]
      obtain ks where "map fst (fst (init_nodes connect ss (socks @ [(data_id s, sock)])))
          = map fst socks @ data_id s # ks" and "subseq ks (map data_id ss)"
        by auto
      with None Inr show ?thesis
        by (auto simp: update_absent)
    qed
  qed
qed

end
